theory Spec2Isabelle
  imports Complex_Main "HOL-Library.Char_ord" "HOL-Library.List_Lexorder" "HOL-Library.Multiset"
    "HOL-Library.Log_Nat"
begin

section \<open>Data model\<close>

text \<open>
  Python exceptions that the modelled functions can raise, as values.
\<close>

datatype py_error = KeyError | IndexError | ValueError | NameError | AssertionError

text \<open>
  A pandas cell: a number (floats are modelled as rationals), a string, or the missing
  value NaN.  A column has a dtype; \<open>Number\<close> stands for the numeric dtypes (int64,
  float64, bool, uint8) that \<open>get_dummies\<close> copies through, \<open>Object\<close> for dtype
  \<open>object\<close>.  A column label is a name, or the label \<open>prefix_level\<close> that
  \<open>get_dummies\<close> builds for an indicator column.
\<close>

datatype cell = Num (the_Num: rat) | Str (the_Str: string) | NaN

datatype dtype = Number | Object

datatype label = Name string | Dummy label cell

record series =
  col_name :: label
  col_dtype :: dtype
  col_values :: "cell list"

text \<open>
  A DataFrame: the row index (its length is the row count, \<open>shape[0]\<close>) and the
  columns in order.
\<close>

record frame =
  frame_index :: "nat list"
  frame_cols :: "series list"

definition shape0 :: "frame \<Rightarrow> nat" where
  "shape0 df = length (frame_index df)"

definition columns :: "frame \<Rightarrow> label list" where
  "columns df = map col_name (frame_cols df)"

text \<open>
  The invariant pandas keeps for every DataFrame: each column has one cell per index
  entry, and (as \<open>read_csv\<close> delivers them) the column labels are distinct.
\<close>

definition wf_frame :: "frame \<Rightarrow> bool" where
  "wf_frame df \<longleftrightarrow>
     list_all (\<lambda>c. length (col_values c) = length (frame_index df)) (frame_cols df)
     \<and> distinct (columns df)"

section \<open>Misclassification filter\<close>

text \<open>
  \<open>pred != y_test\<close> on two one-dimensional numpy arrays: elementwise on equal
  lengths, broadcasting an array of length one, an error otherwise.
\<close>

definition ne_mask :: "'a list \<Rightarrow> 'a list \<Rightarrow> py_error + bool list" where
  "ne_mask a b =
     (if length a = length b then Inr (map2 (\<lambda>x y. x \<noteq> y) a b)
      else if length b = 1 then Inr (map (\<lambda>x. x \<noteq> hd b) a)
      else if length a = 1 then Inr (map (\<lambda>y. hd a \<noteq> y) b)
      else Inl ValueError)"

text \<open>The entries of \<open>xs\<close> at the positions where the mask is true, in order.\<close>

definition select :: "bool list \<Rightarrow> 'a list \<Rightarrow> 'a list" where
  "select m xs = map fst (filter snd (zip xs m))"

text \<open>\<open>a[mask]\<close> on a numpy array: the mask must have the array's length.\<close>

definition bool_index :: "'a list \<Rightarrow> bool list \<Rightarrow> py_error + 'a list" where
  "bool_index xs m =
     (if length m = length xs then Inr (select m xs) else Inl IndexError)"

text \<open>
  \<open>df[mask]\<close> on a DataFrame: the mask must have one entry per row; the result
  keeps the columns (labels and dtypes) and the selected rows.
\<close>

definition frame_getitem_mask :: "frame \<Rightarrow> bool list \<Rightarrow> py_error + frame" where
  "frame_getitem_mask df m =
     (if length m = length (frame_index df)
      then Inr (df\<lparr>frame_index := select m (frame_index df),
                    frame_cols := map (\<lambda>c. c\<lparr>col_values := select m (col_values c)\<rparr>)
                                     (frame_cols df)\<rparr>)
      else Inl ValueError)"

definition filter_misclassified ::
  "frame \<Rightarrow> 'a list \<Rightarrow> 'a list \<Rightarrow> py_error + (frame \<times> 'a list \<times> 'a list)" where
  "filter_misclassified X_test y_test pred =
     (case ne_mask pred y_test of
        Inl e \<Rightarrow> Inl e
      | Inr idx_misclassified \<Rightarrow>
          (case frame_getitem_mask X_test idx_misclassified of
             Inl e \<Rightarrow> Inl e
           | Inr X_test_misclassified \<Rightarrow>
               (case bool_index y_test idx_misclassified of
                  Inl e \<Rightarrow> Inl e
                | Inr y_test_misclassified \<Rightarrow>
                    (case bool_index pred idx_misclassified of
                       Inl e \<Rightarrow> Inl e
                     | Inr pred_misclassified \<Rightarrow>
                         Inr (X_test_misclassified, y_test_misclassified,
                              pred_misclassified)))))"

text \<open>The rows of a frame at the positions in \<open>S\<close>, in their original order.\<close>

definition rows_at :: "frame \<Rightarrow> nat set \<Rightarrow> frame" where
  "rows_at df S =
     df\<lparr>frame_index := nths (frame_index df) S,
        frame_cols := map (\<lambda>c. c\<lparr>col_values := nths (col_values c) S\<rparr>) (frame_cols df)\<rparr>"

text \<open>The frame with the same columns and no rows.\<close>

definition empty_like :: "frame \<Rightarrow> frame" where
  "empty_like df =
     df\<lparr>frame_index := [],
        frame_cols := map (\<lambda>c. c\<lparr>col_values := []\<rparr>) (frame_cols df)\<rparr>"

section \<open>Data encoder\<close>

text \<open>
  \<open>data.drop(targetcol, axis=1)\<close>: the frame without the columns of that label; a
  label that is not a column raises KeyError.
\<close>

definition drop_axis1 :: "frame \<Rightarrow> label \<Rightarrow> py_error + frame" where
  "drop_axis1 df c =
     (if c \<in> set (columns df)
      then Inr (df\<lparr>frame_cols := filter (\<lambda>s. col_name s \<noteq> c) (frame_cols df)\<rparr>)
      else Inl KeyError)"

text \<open>
  The distinct values of a sequence in order of first appearance, as the hash-table loop
  behind \<open>Series.unique\<close> and \<open>factorize\<close> collects them: \<open>seen\<close> holds the
  values met so far.
\<close>

fun uniques_from :: "'a list \<Rightarrow> 'a list \<Rightarrow> 'a list" where
  "uniques_from seen [] = seen"
| "uniques_from seen (x # xs) =
     (if x \<in> set seen then uniques_from seen xs else uniques_from (seen @ [x]) xs)"

text \<open>\<open>Series.unique()\<close>: NaN is reported like any other value, once.\<close>

definition unique :: "cell list \<Rightarrow> cell list" where
  "unique vs = uniques_from [] vs"

text \<open>The position of the first occurrence of a value in a list.\<close>

fun index_of :: "'a list \<Rightarrow> 'a \<Rightarrow> nat option" where
  "index_of [] v = None"
| "index_of (x # xs) v =
     (if x = v then Some 0 else map_option Suc (index_of xs v))"

text \<open>
  \<open>pd.factorize(values)\<close> walks the values with a table of the distinct values met so
  far (\<open>uniq\<close>).  One step: a missing value gets the sentinel code \<open>-1\<close> and is not
  entered in the table; a value in the table gets its position; a new value is appended
  and gets the next position.  The result is the pair (codes, uniques).
\<close>

definition factorize_step :: "cell list \<Rightarrow> cell \<Rightarrow> int \<times> cell list" where
  "factorize_step uniq v =
     (if v = NaN then (- 1, uniq)
      else case index_of uniq v of
             Some k \<Rightarrow> (int k, uniq)
           | None \<Rightarrow> (int (length uniq), uniq @ [v]))"

fun factorize_from :: "cell list \<Rightarrow> cell list \<Rightarrow> int list \<times> cell list" where
  "factorize_from uniq [] = ([], uniq)"
| "factorize_from uniq (v # vs) =
     (case factorize_step uniq v of
        (code, uniq') \<Rightarrow>
          (case factorize_from uniq' vs of (codes, u) \<Rightarrow> (code # codes, u)))"

definition factorize :: "cell list \<Rightarrow> int list \<times> cell list" where
  "factorize vs = factorize_from [] vs"

text \<open>
  The categories \<open>get_dummies\<close> derives for a column: its distinct values that are
  not missing, in sorted order; in a column that mixes numbers and strings the numbers
  come before the strings.
\<close>

definition categories :: "cell list \<Rightarrow> cell list" where
  "categories vs =
     (let u = unique (filter (\<lambda>v. v \<noteq> NaN) vs)
      in map Num (sort (map the_Num (filter is_Num u)))
         @ map Str (sort (map the_Str (filter is_Str u))))"

text \<open>
  The indicator columns of one encoded column: one per category, labelled
  \<open>prefix_level\<close>, \<open>1\<close> where the cell holds that category and \<open>0\<close> elsewhere
  (a missing cell is \<open>0\<close> in each of them).
\<close>

definition get_dummies_1d :: "series \<Rightarrow> series list" where
  "get_dummies_1d c =
     map (\<lambda>level. \<lparr>col_name = Dummy (col_name c) level, col_dtype = Number,
                     col_values = map (\<lambda>v. if v = level then Num 1 else Num 0) (col_values c)\<rparr>)
         (categories (col_values c))"

text \<open>
  \<open>pd.get_dummies(df)\<close>: the columns of dtype object are encoded; the other
  columns come first, unchanged, unless every column is encoded; the pieces are
  concatenated, and concatenating no piece at all (a frame without columns) raises
  ValueError.
\<close>

definition get_dummies :: "frame \<Rightarrow> py_error + frame" where
  "get_dummies data =
     (let data_to_encode = filter (\<lambda>c. col_dtype c = Object) (frame_cols data);
          with_dummies =
            (if length data_to_encode = length (frame_cols data) then []
             else [filter (\<lambda>c. col_dtype c \<noteq> Object) (frame_cols data)])
            @ map get_dummies_1d data_to_encode
      in if with_dummies = [] then Inl ValueError
         else Inr (data\<lparr>frame_cols := concat with_dummies\<rparr>))"

text \<open>\<open>df.fillna(0)\<close>: every missing cell becomes the number \<open>0\<close>.\<close>

definition fillna0 :: "frame \<Rightarrow> frame" where
  "fillna0 df =
     df\<lparr>frame_cols :=
          map (\<lambda>c. c\<lparr>col_values := map (\<lambda>v. if v = NaN then Num 0 else v) (col_values c)\<rparr>)
              (frame_cols df)\<rparr>"

text \<open>\<open>df[label]\<close>: the column of that label, KeyError when there is none.\<close>

definition getitem :: "frame \<Rightarrow> label \<Rightarrow> py_error + series" where
  "getitem df c =
     (case find (\<lambda>s. col_name s = c) (frame_cols df) of
        None \<Rightarrow> Inl KeyError
      | Some s \<Rightarrow> Inr s)"

text \<open>
  \<open>df[label] = series\<close> for a label that is a column: the column is replaced in
  place, in the caller's frame.
\<close>

definition setitem :: "frame \<Rightarrow> label \<Rightarrow> series \<Rightarrow> frame" where
  "setitem df c s =
     df\<lparr>frame_cols := map (\<lambda>old. if col_name old = c then s else old) (frame_cols df)\<rparr>"

definition astype_object :: "series \<Rightarrow> series" where
  "astype_object s = s\<lparr>col_dtype := Object\<rparr>"

text \<open>
  \<open>encode_data(data, targetcol)\<close>.  The function assigns to \<open>data[targetcol]\<close>,
  so the caller's table changes; the model returns the table as the call leaves it next
  to the result \<open>(X, y, features, target_labels)\<close>.  An exception leaves the table as
  it was: \<open>drop\<close> and \<open>get_dummies\<close> run before the assignment.
\<close>

definition encode_data ::
  "frame \<Rightarrow> label \<Rightarrow> py_error + ((frame \<times> int list \<times> label list \<times> cell list) \<times> frame)" where
  "encode_data data targetcol =
     (case drop_axis1 data targetcol of
        Inl e \<Rightarrow> Inl e
      | Inr dropped \<Rightarrow>
          (case get_dummies dropped of
             Inl e \<Rightarrow> Inl e
           | Inr dummies \<Rightarrow>
               (let X = fillna0 dummies;
                    features = columns X
                in case getitem data targetcol of
                     Inl e \<Rightarrow> Inl e
                   | Inr target \<Rightarrow>
                       (let data' = setitem data targetcol (astype_object target)
                        in case getitem data' targetcol of
                             Inl e \<Rightarrow> Inl e
                           | Inr target' \<Rightarrow>
                               (let target_labels = unique (col_values target');
                                    y = fst (factorize (col_values target'))
                                in Inr ((X, y, features, target_labels), data'))))))"

section \<open>Splitter\<close>

text \<open>
  The sizes \<open>train_test_split\<close> derives for \<open>train_size=0.80\<close> and no
  \<open>test_size\<close>: the training part gets \<open>floor(0.8 * n_samples)\<close> rows, the test
  part the rest, and an empty training part raises ValueError.
\<close>

definition validate_shuffle_split :: "nat \<Rightarrow> py_error + (nat \<times> nat)" where
  "validate_shuffle_split n_samples =
     (let n_train = nat \<lfloor>(4 / 5 :: rat) * of_nat n_samples\<rfloor>;
          n_test = n_samples - n_train
      in if n_train = 0 then Inl ValueError else Inr (n_train, n_test))"

text \<open>Positional selection of rows (\<open>iloc\<close>) and of array entries; a position out of range raises.\<close>

definition take_array :: "'a list \<Rightarrow> nat list \<Rightarrow> py_error + 'a list" where
  "take_array xs idx =
     (if list_all (\<lambda>i. i < length xs) idx then Inr (map (\<lambda>i. xs ! i) idx)
      else Inl IndexError)"

definition take_rows :: "frame \<Rightarrow> nat list \<Rightarrow> py_error + frame" where
  "take_rows df idx =
     (if list_all (\<lambda>i. i < length (frame_index df)) idx
         \<and> list_all (\<lambda>c. list_all (\<lambda>i. i < length (col_values c)) idx) (frame_cols df)
      then Inr (df\<lparr>frame_index := map (\<lambda>i. frame_index df ! i) idx,
                    frame_cols := map (\<lambda>c. c\<lparr>col_values := map (\<lambda>i. col_values c ! i) idx\<rparr>)
                                     (frame_cols df)\<rparr>)
      else Inl IndexError)"

text \<open>
  \<open>splitdata(X, y)\<close>, that is \<open>train_test_split(X, y, train_size=0.80,
  random_state=0)\<close>.  The arrays must have one length.  The rows are shuffled by the
  permutation that numpy's generator seeded with \<open>0\<close> draws for that length; the
  generator is not modelled, so the permutation it draws is the parameter
  \<open>permutation\<close>.  The first \<open>n_test\<close> shuffled positions form the test part, the
  next \<open>n_train\<close> the training part.
\<close>

definition splitdata ::
  "(nat \<Rightarrow> nat list) \<Rightarrow> frame \<Rightarrow> 'a list \<Rightarrow> py_error + (frame \<times> frame \<times> 'a list \<times> 'a list)" where
  "splitdata permutation X y =
     (if shape0 X \<noteq> length y then Inl ValueError
      else case validate_shuffle_split (shape0 X) of
        Inl e \<Rightarrow> Inl e
      | Inr (n_train, n_test) \<Rightarrow>
          (let perm = permutation (shape0 X);
               ind_test = take n_test perm;
               ind_train = take n_train (drop n_test perm)
           in case take_rows X ind_train of
                Inl e \<Rightarrow> Inl e
              | Inr X_train \<Rightarrow>
                  (case take_rows X ind_test of
                     Inl e \<Rightarrow> Inl e
                   | Inr X_test \<Rightarrow>
                       (case take_array y ind_train of
                          Inl e \<Rightarrow> Inl e
                        | Inr y_train \<Rightarrow>
                            (case take_array y ind_test of
                               Inl e \<Rightarrow> Inl e
                             | Inr y_test \<Rightarrow> Inr (X_train, X_test, y_train, y_test))))))"

text \<open>
  The rows of a frame at the listed positions, in the listed order: the index entry and
  every cell of row \<open>idx ! k\<close> become the index entry and the cells of row \<open>k\<close>;
  labels and dtypes of the columns stay.  Used to state what a split returns.
\<close>

definition rows_in_order :: "frame \<Rightarrow> nat list \<Rightarrow> frame" where
  "rows_in_order df idx =
     \<lparr>frame_index = map (\<lambda>i. frame_index df ! i) idx,
      frame_cols =
        map (\<lambda>c. \<lparr>col_name = col_name c, col_dtype = col_dtype c,
                    col_values = map (\<lambda>i. col_values c ! i) idx\<rparr>)
            (frame_cols df)\<rparr>"

section \<open>Model training\<close>

text \<open>
  The estimators the program constructs, with the arguments it passes.  The learning
  procedures themselves belong to the libraries: \<open>fit\<close> (the \<open>fit\<close> method of a
  scikit-learn style classifier) and \<open>xgb_train\<close> (\<open>xgboost.train\<close> on a DMatrix
  of the data and its labels) are parameters, and either may raise.
\<close>

record lgbm_params =
  class_weight :: "string option"
  objective :: string
  n_jobs :: int
  verbose :: int

datatype estimator =
    RandomForestClassifier nat int
  | LGBMClassifier lgbm_params

record xgb_params =
  max_depth :: nat
  silent :: int
  random_state :: int
  num_class :: nat

text \<open>The LightGBM classifier chosen from the number of target labels.\<close>

definition lgbm_classifier :: "cell list \<Rightarrow> lgbm_params" where
  "lgbm_classifier target_labels =
     (if length target_labels > 2
      then \<lparr>class_weight = Some ''balanced'', objective = ''multiclass'',
            n_jobs = - 1, verbose = - 1\<rparr>
      else \<lparr>class_weight = None, objective = ''binary'', n_jobs = - 1, verbose = - 1\<rparr>)"

text \<open>
  The training block of \<open>main\<close>.  A model name that is none of the three leaves
  \<open>clf\<close> unbound, and its first use raises NameError.
\<close>

definition apply_model ::
  "(estimator \<Rightarrow> frame \<Rightarrow> int list \<Rightarrow> py_error + 'clf) \<Rightarrow>
   (xgb_params \<Rightarrow> frame \<times> int list \<Rightarrow> py_error + 'clf) \<Rightarrow>
   string \<Rightarrow> frame \<Rightarrow> int list \<Rightarrow> cell list \<Rightarrow> py_error + 'clf" where
  "apply_model fit xgb_train model_dim X_train y_train target_labels =
     (if model_dim = ''randomforest'' then
        fit (RandomForestClassifier 500 0) X_train y_train
      else if model_dim = ''lightGBM'' then
        fit (LGBMClassifier (lgbm_classifier target_labels)) X_train y_train
      else if model_dim = ''XGBoost'' then
        xgb_train \<lparr>max_depth = 5, silent = 1, random_state = 2,
                   num_class = length target_labels\<rparr> (X_train, y_train)
      else Inl NameError)"

section \<open>Local explanation\<close>

text \<open>
  Indexing a Python sequence or numpy array by an integer: a negative index counts from
  the end, an index out of range raises IndexError.
\<close>

definition py_getitem :: "'a list \<Rightarrow> int \<Rightarrow> py_error + 'a" where
  "py_getitem xs i =
     (if 0 \<le> i \<and> i < int (length xs) then Inr (xs ! nat i)
      else if i < 0 \<and> - int (length xs) \<le> i then Inr (xs ! nat (int (length xs) + i))
      else Inl IndexError)"

text \<open>\<open>int(x)\<close> on a number: truncation towards zero.\<close>

definition py_int :: "rat \<Rightarrow> int" where
  "py_int q = (if 0 \<le> q then \<lfloor>q\<rfloor> else \<lceil>q\<rceil>)"

text \<open>\<open>df.iloc[i, :]\<close>: the cells of row \<open>i\<close>, one per column.\<close>

definition row_cells :: "frame \<Rightarrow> nat \<Rightarrow> py_error + cell list" where
  "row_cells df k =
     (if list_all (\<lambda>c. k < length (col_values c)) (frame_cols df)
      then Inr (map (\<lambda>c. col_values c ! k) (frame_cols df))
      else Inl IndexError)"

definition iloc_row :: "frame \<Rightarrow> int \<Rightarrow> py_error + cell list" where
  "iloc_row df i =
     (if 0 \<le> i \<and> i < int (shape0 df) then row_cells df (nat i)
      else if i < 0 \<and> - int (shape0 df) \<le> i then row_cells df (nat (int (shape0 df) + i))
      else Inl IndexError)"

text \<open>
  What \<open>shap.TreeExplainer(clf)\<close> offers: the expected value of each class, and for
  a frame the contribution arrays, one per class, each with a row per row of the frame
  and an entry per feature.  The explainer belongs to the library; the function that
  builds it from a model is a parameter.
\<close>

record tree_explainer =
  expected_value :: "rat list"
  shap_values :: "frame \<Rightarrow> rat list list list"

text \<open>The three arguments handed to \<open>shap.force_plot\<close>.\<close>

record force_plot =
  base_value :: rat
  contributions :: "rat list"
  features :: "cell list"

text \<open>
  \<open>show_local_interpretation_shap(clf, X_test, pred, slider_idx)\<close>; the result is
  the force plot it draws.  (The help button and its text are left out.)
\<close>

definition show_local_interpretation_shap ::
  "('clf \<Rightarrow> tree_explainer) \<Rightarrow> 'clf \<Rightarrow> frame \<Rightarrow> rat list \<Rightarrow> int \<Rightarrow> py_error + force_plot" where
  "show_local_interpretation_shap TreeExplainer clf X_test pred slider_idx =
     (let explainer = TreeExplainer clf;
          values = shap_values explainer X_test
      in case py_getitem pred slider_idx of
           Inl e \<Rightarrow> Inl e
         | Inr p \<Rightarrow>
             (let pred_i = py_int p
              in case py_getitem (expected_value explainer) pred_i of
                   Inl e \<Rightarrow> Inl e
                 | Inr base \<Rightarrow>
                     (case py_getitem values pred_i of
                        Inl e \<Rightarrow> Inl e
                      | Inr class_values \<Rightarrow>
                          (case py_getitem class_values slider_idx of
                             Inl e \<Rightarrow> Inl e
                           | Inr row_values \<Rightarrow>
                               (case iloc_row X_test slider_idx of
                                  Inl e \<Rightarrow> Inl e
                                | Inr row \<Rightarrow>
                                    Inr \<lparr>base_value = base, contributions = row_values,
                                         features = row\<rparr>)))))"

text \<open>
  \<open>show_local_interpretation_eli5\<close>: the call of \<open>eli5.show_prediction\<close>, a
  library function taken as a parameter with the arguments (model, row, target names,
  top, targets).  The XGBoost branch passes neither target names nor targets.
\<close>

definition show_local_interpretation_eli5 ::
  "('clf \<Rightarrow> cell list \<Rightarrow> cell list option \<Rightarrow> nat \<Rightarrow> bool list option \<Rightarrow> 'html) \<Rightarrow>
   frame \<Rightarrow> 'clf \<Rightarrow> rat list \<Rightarrow> cell list \<Rightarrow> label list \<Rightarrow> string \<Rightarrow> int \<Rightarrow> py_error + 'html" where
  "show_local_interpretation_eli5 show_prediction dataset clf pred target_labels feats
       model_dim slider_idx =
     (case iloc_row dataset slider_idx of
        Inl e \<Rightarrow> Inl e
      | Inr doc \<Rightarrow>
          (if model_dim = ''XGBoost'' then Inr (show_prediction clf doc None 5 None)
           else Inr (show_prediction clf doc (Some target_labels) 5 (Some [True]))))"

text \<open>
  What \<open>show_local_interpretation\<close> puts on the page: the two labels of its text line
  (the predicted and the actual label of the selected row) and the explanation of the
  chosen framework, if any.  The slider is the user's choice between its two bounds and
  is a parameter.
\<close>

datatype 'html explanation = ForcePlot force_plot | Eli5 'html | NoExplanation

record 'html local_view =
  shown_prediction :: cell
  shown_actual :: cell
  shown_explanation :: "'html explanation"

definition show_local_interpretation ::
  "(int \<Rightarrow> int \<Rightarrow> int) \<Rightarrow> ('clf \<Rightarrow> tree_explainer) \<Rightarrow>
   ('clf \<Rightarrow> cell list \<Rightarrow> cell list option \<Rightarrow> nat \<Rightarrow> bool list option \<Rightarrow> 'html) \<Rightarrow>
   frame \<Rightarrow> int list \<Rightarrow> 'clf \<Rightarrow> rat list \<Rightarrow> cell list \<Rightarrow> label list \<Rightarrow> string \<Rightarrow> string \<Rightarrow>
   py_error + 'html local_view" where
  "show_local_interpretation slider TreeExplainer show_prediction
       X_test y_test clf pred target_labels feats model_dim dim_framework =
     (let n_data = int (shape0 X_test);
          slider_idx = slider 0 (n_data - 1)
      in case py_getitem pred slider_idx of
           Inl e \<Rightarrow> Inl e
         | Inr p \<Rightarrow>
             (case py_getitem target_labels (py_int p) of
                Inl e \<Rightarrow> Inl e
              | Inr predicted \<Rightarrow>
                  (case py_getitem y_test slider_idx of
                     Inl e \<Rightarrow> Inl e
                   | Inr t \<Rightarrow>
                       (case py_getitem target_labels t of
                          Inl e \<Rightarrow> Inl e
                        | Inr actual \<Rightarrow>
                            (if dim_framework = ''SHAP'' then
                               (case show_local_interpretation_shap TreeExplainer clf X_test
                                       pred slider_idx of
                                  Inl e \<Rightarrow> Inl e
                                | Inr plot \<Rightarrow>
                                    Inr \<lparr>shown_prediction = predicted, shown_actual = actual,
                                         shown_explanation = ForcePlot plot\<rparr>)
                             else if dim_framework = ''ELI5'' then
                               (case show_local_interpretation_eli5 show_prediction X_test clf
                                       pred target_labels feats model_dim slider_idx of
                                  Inl e \<Rightarrow> Inl e
                                | Inr html \<Rightarrow>
                                    Inr \<lparr>shown_prediction = predicted, shown_actual = actual,
                                         shown_explanation = Eli5 html\<rparr>)
                             else
                               Inr \<lparr>shown_prediction = predicted, shown_actual = actual,
                                    shown_explanation = NoExplanation\<rparr>)))))"

section \<open>Global explanation\<close>

text \<open>
  Scores are double-precision floats; a double is a rational number, and the model holds
  its exact value.  \<open>fl q\<close> is the double nearest to the rational \<open>q\<close>, a tie
  going to the even mantissa: the result of every floating-point operation is \<open>fl\<close> of
  the exact result.  (The exponent range is not modelled: no overflow, no subnormal
  numbers.)  \<open>floor_log2 a\<close> is the exponent \<open>e\<close> with \<open>2^e \<le> a < 2^(e+1)\<close>, for
  positive \<open>a\<close>, found from the bit lengths of numerator and denominator.
\<close>

definition round_half_even :: "rat \<Rightarrow> int" where
  "round_half_even q =
     (let f = \<lfloor>q\<rfloor>; d = q - of_int f
      in if d < 1 / 2 then f
         else if 1 / 2 < d then f + 1
         else if even f then f else f + 1)"

definition floor_log2 :: "rat \<Rightarrow> int" where
  "floor_log2 a =
     (case quotient_of a of
        (n, d) \<Rightarrow> (let e = bitlen n - bitlen d in if 2 powi e \<le> a then e else e - 1))"

definition fl :: "rat \<Rightarrow> rat" where
  "fl q =
     (if q = 0 then 0
      else let ulp = 2 powi (floor_log2 \<bar>q\<bar> - 52)
           in sgn q * of_int (round_half_even (\<bar>q\<bar> / ulp)) * ulp)"

text \<open>
  \<open>DataFrame.round(2)\<close>, that is numpy's \<open>around\<close> with two decimals: the
  number is multiplied by \<open>100\<close>, the product rounded to the nearest integer (a tie
  going to the even one), and the integer divided by \<open>100\<close>; product and quotient are
  floating-point operations.
\<close>

definition round2 :: "rat \<Rightarrow> rat" where
  "round2 q = fl (of_int (round_half_even (fl (q * 100))) / 100)"

text \<open>A row of the table \<open>eli5.explain_weights_df\<close> returns.\<close>

record weight_row =
  feature :: label
  weight :: rat
  std :: rat

text \<open>
  \<open>eli5.explain_weights_df(perm, feature_names=..., top=...)\<close> for a fitted
  permutation importance: the features with the \<open>top\<close> largest importances, largest
  first (the ascending order of the importances, reversed, and cut after \<open>top\<close>
  entries; of features with equal importance the later ones come first).  An importance
  is the mean drop of the score when the feature is shuffled, with its standard
  deviation; it may be zero or negative.  Computing the importances belongs to the
  library (\<open>PermutationImportance(clf, n_iter=2, random_state=1).fit\<close>) and is a
  parameter below.
\<close>

definition explain_weights_df :: "(rat \<times> rat) list \<Rightarrow> label list \<Rightarrow> nat \<Rightarrow> weight_row list" where
  "explain_weights_df importances feature_names top_n =
     take top_n
       (rev (sort_key weight
          (map (\<lambda>(f, w, s). \<lparr>feature = f, weight = w, std = s\<rparr>)
               (zip feature_names importances))))"

definition round_df :: "weight_row list \<Rightarrow> weight_row list" where
  "round_df df = map (\<lambda>r. r\<lparr>weight := round2 (weight r), std := round2 (std r)\<rparr>) df"

text \<open>
  \<open>show_global_interpretation_eli5\<close>; the result is the bar chart it writes, as its
  rows from top to bottom: the chart orders the features by descending weight
  (\<open>sort='-x'\<close>).
\<close>

definition show_global_interpretation_eli5 ::
  "('clf \<Rightarrow> frame \<Rightarrow> int list \<Rightarrow> (rat \<times> rat) list) \<Rightarrow>
   frame \<Rightarrow> int list \<Rightarrow> label list \<Rightarrow> 'clf \<Rightarrow> string \<Rightarrow> weight_row list" where
  "show_global_interpretation_eli5 PermutationImportance X_train y_train feats clf model_dim =
     (let perm = PermutationImportance clf X_train y_train;
          df_global_explain = explain_weights_df perm (columns X_train) 5;
          df_rounded = round_df df_global_explain
      in sort_key (\<lambda>r. - weight r) df_rounded)"

text \<open>
  The mean absolute contribution of feature \<open>j\<close> in the array of one class, in exact
  arithmetic (the rounding of numpy's floating-point sum is not modelled; with no row at
  all numpy's mean is NaN, which the rationals do not have).
\<close>

definition mean_abs :: "rat list list \<Rightarrow> nat \<Rightarrow> rat" where
  "mean_abs class_values j =
     sum_list (map (\<lambda>row. \<bar>row ! j\<bar>) class_values) / of_nat (length class_values)"

text \<open>
  \<open>shap.summary_plot(values, X, plot_type="bar", max_display=...)\<close> on the list of
  per-class arrays: the bar of a feature stacks its mean absolute contribution in each
  class.  The features are put in ascending order of their bars, the last
  \<open>max_display\<close> of them are drawn, and the longest bar is on top.  The number of
  features is read off the first array and asserted to be the number of columns of
  \<open>X\<close>.  The result is the list of bars, top to bottom.
\<close>

definition summary_plot_bar ::
  "rat list list list \<Rightarrow> frame \<Rightarrow> nat \<Rightarrow> py_error + (label \<times> rat) list" where
  "summary_plot_bar values X max_display =
     (if values = [] then Inl IndexError
      else if \<not> list_all (list_all (\<lambda>row. length row = length (columns X))) values
      then Inl AssertionError
      else Inr (take max_display
                  (rev (sort_key snd
                     (map (\<lambda>j. (columns X ! j, sum_list (map (\<lambda>cv. mean_abs cv j) values)))
                          [0..<length (columns X)])))))"

definition show_global_interpretation_shap ::
  "('clf \<Rightarrow> tree_explainer) \<Rightarrow> frame \<Rightarrow> 'clf \<Rightarrow> py_error + (label \<times> rat) list" where
  "show_global_interpretation_shap TreeExplainer X_train clf =
     (let explainer = TreeExplainer clf;
          values = shap_values explainer X_train
      in summary_plot_bar values X_train 5)"

section \<open>Output to the page\<close>

text \<open>
  The functions that explain a model return nothing: they put their result on the page
  through streamlit.  A page is the list of the streamlit calls made so far, each with
  what it shows.  \<open>st.pyplot()\<close> shows the current matplotlib figure, which is either
  the summary bar plot or a force plot.
\<close>

datatype figure = Summary_figure "(label \<times> rat) list" | Force_figure force_plot

datatype 'html st_call =
    St_write "weight_row list"
  | St_pyplot figure
  | St_slider int int
  | St_text cell cell
  | St_button string
  | St_info
  | St_markdown 'html

text \<open>
  \<open>show_global_interpretation_eli5\<close> ends with \<open>st.write(bar)\<close>,
  \<open>show_global_interpretation_shap\<close> with \<open>st.pyplot()\<close>.  An exception ends
  the run of the script, and the page is not returned.
\<close>

definition show_global_interpretation_eli5_page ::
  "'html st_call list \<Rightarrow> ('clf \<Rightarrow> frame \<Rightarrow> int list \<Rightarrow> (rat \<times> rat) list) \<Rightarrow>
   frame \<Rightarrow> int list \<Rightarrow> label list \<Rightarrow> 'clf \<Rightarrow> string \<Rightarrow> 'html st_call list" where
  "show_global_interpretation_eli5_page page PermutationImportance X_train y_train feats clf
       model_dim =
     page @ [St_write (show_global_interpretation_eli5 PermutationImportance X_train y_train
                         feats clf model_dim)]"

definition show_global_interpretation_shap_page ::
  "'html st_call list \<Rightarrow> ('clf \<Rightarrow> tree_explainer) \<Rightarrow> frame \<Rightarrow> 'clf \<Rightarrow>
   py_error + 'html st_call list" where
  "show_global_interpretation_shap_page page TreeExplainer X_train clf =
     (case show_global_interpretation_shap TreeExplainer X_train clf of
        Inl e \<Rightarrow> Inl e
      | Inr chart \<Rightarrow> Inr (page @ [St_pyplot (Summary_figure chart)]))"

text \<open>
  \<open>show_local_interpretation\<close> shows the slider with its bounds and the text line,
  then the chosen explanation: the help button (with its text when the user has pressed
  it, \<open>pressed\<close>), and the force plot through \<open>st.pyplot()\<close> or the table of
  \<open>eli5\<close> through \<open>st.markdown\<close>.
\<close>

definition show_local_interpretation_page ::
  "'html st_call list \<Rightarrow> bool \<Rightarrow> (int \<Rightarrow> int \<Rightarrow> int) \<Rightarrow> ('clf \<Rightarrow> tree_explainer) \<Rightarrow>
   ('clf \<Rightarrow> cell list \<Rightarrow> cell list option \<Rightarrow> nat \<Rightarrow> bool list option \<Rightarrow> 'html) \<Rightarrow>
   frame \<Rightarrow> int list \<Rightarrow> 'clf \<Rightarrow> rat list \<Rightarrow> cell list \<Rightarrow> label list \<Rightarrow> string \<Rightarrow> string \<Rightarrow>
   py_error + 'html st_call list" where
  "show_local_interpretation_page page pressed slider TreeExplainer show_prediction
       X_test y_test clf pred target_labels feats model_dim dim_framework =
     (case show_local_interpretation slider TreeExplainer show_prediction
             X_test y_test clf pred target_labels feats model_dim dim_framework of
        Inl e \<Rightarrow> Inl e
      | Inr view \<Rightarrow>
          Inr (page
               @ [St_slider 0 (int (shape0 X_test) - 1),
                  St_text (shown_prediction view) (shown_actual view)]
               @ (case shown_explanation view of
                    ForcePlot plot \<Rightarrow>
                      [St_button ''How this works''] @ (if pressed then [St_info] else [])
                      @ [St_pyplot (Force_figure plot)]
                  | Eli5 html \<Rightarrow>
                      [St_button ''How this works''] @ (if pressed then [St_info] else [])
                      @ [St_markdown html]
                  | NoExplanation \<Rightarrow> [])))"

section \<open>Example tables\<close>

text \<open>
  Small concrete inputs at which the theorems below are instantiated.  \<open>ex_X_test\<close>
  with \<open>ex_y_test\<close> and \<open>ex_pred\<close> is an evaluation set of four rows of which the
  rows at positions 1 and 3 are misclassified.  \<open>ex_table\<close> is a table with a numeric
  feature, a categorical feature and a string target; \<open>ex_numeric_target\<close> has a
  numeric target column; \<open>ex_missing_target\<close> has a target column with a missing
  entry.
\<close>

definition ex_X_test :: frame where
  "ex_X_test =
     \<lparr>frame_index = [7, 2, 5, 0],
      frame_cols = [\<lparr>col_name = Name ''width'', col_dtype = Number,
                      col_values = [Num 1, Num 2, Num 3, Num 4]\<rparr>]\<rparr>"

definition ex_y_test :: "int list" where
  "ex_y_test = [0, 1, 1, 0]"

definition ex_pred :: "int list" where
  "ex_pred = [0, 0, 1, 1]"



definition ex_missing_target :: frame where
  "ex_missing_target =
     \<lparr>frame_index = [0, 1, 2],
      frame_cols =
        [\<lparr>col_name = Name ''width'', col_dtype = Number,
           col_values = [Num 1, Num 2, Num 3]\<rparr>,
         \<lparr>col_name = Name ''species'', col_dtype = Object,
           col_values = [Str ''a'', NaN, Str ''b'']\<rparr>]\<rparr>"



definition ex_permutation :: "nat \<Rightarrow> nat list" where
  "ex_permutation n = rev [0..<n]"

definition ex_explainer :: "unit \<Rightarrow> tree_explainer" where
  "ex_explainer clf =
     \<lparr>expected_value = [1 / 2, 1 / 3],
      shap_values = (\<lambda>X. [[[1], [2], [- 3], [0]], [[5], [6], [7], [8]]])\<rparr>"

definition ex_pred_scores :: "rat list" where
  "ex_pred_scores = [0, 0, 1, 1]"

definition ex_labels :: "cell list" where
  "ex_labels = [Str ''no'', Str ''yes'']"

text \<open>
  \<open>ex_explainer_eighth\<close> is an explainer of one class whose only non-zero
  contribution on four rows is \<open>1/2\<close>, so that the mean absolute contribution of the
  feature is \<open>1/8\<close>.  \<open>ex_fit\<close> and \<open>ex_xgb_train\<close> stand for library training
  procedures: the first accepts every input and returns the estimator with the labels it
  was given, the second always raises.
\<close>

definition ex_explainer_eighth :: "unit \<Rightarrow> tree_explainer" where
  "ex_explainer_eighth clf =
     \<lparr>expected_value = [0], shap_values = (\<lambda>X. [[[1 / 2], [0], [0], [0]]])\<rparr>"

definition ex_fit :: "estimator \<Rightarrow> frame \<Rightarrow> int list \<Rightarrow> py_error + (estimator \<times> int list)" where
  "ex_fit est X y = Inr (est, y)"

definition ex_xgb_train ::
  "xgb_params \<Rightarrow> frame \<times> int list \<Rightarrow> py_error + (estimator \<times> int list)" where
  "ex_xgb_train ps d = Inl ValueError"

text \<open>
  \<open>ex_target_only\<close> is a table whose only column is the target.  \<open>ex_two\<close> and
  \<open>ex_one\<close> are tables of two rows and of one row to split.  \<open>ex_six\<close> is a
  training frame of six features; \<open>ex_importances6\<close> are permutation importances for
  it, two of them negative, and \<open>ex_explainer6\<close> is an explainer of two classes for it.
  \<open>ex_html\<close> stands for \<open>eli5.show_prediction\<close>.
\<close>

definition ex_target_only :: frame where
  "ex_target_only =
     \<lparr>frame_index = [0, 1],
      frame_cols =
        [\<lparr>col_name = Name ''label'', col_dtype = Object,
           col_values = [Str ''no'', Str ''yes'']\<rparr>]\<rparr>"

definition ex_two :: frame where
  "ex_two =
     \<lparr>frame_index = [0, 1],
      frame_cols = [\<lparr>col_name = Name ''width'', col_dtype = Number,
                      col_values = [Num 10, Num 11]\<rparr>]\<rparr>"

definition ex_one :: frame where
  "ex_one =
     \<lparr>frame_index = [0],
      frame_cols = [\<lparr>col_name = Name ''width'', col_dtype = Number,
                      col_values = [Num 10]\<rparr>]\<rparr>"

definition ex_six :: frame where
  "ex_six =
     \<lparr>frame_index = [0, 1],
      frame_cols =
        [\<lparr>col_name = Name ''a'', col_dtype = Number, col_values = [Num 1, Num 2]\<rparr>,
         \<lparr>col_name = Name ''b'', col_dtype = Number, col_values = [Num 3, Num 4]\<rparr>,
         \<lparr>col_name = Name ''c'', col_dtype = Number, col_values = [Num 5, Num 6]\<rparr>,
         \<lparr>col_name = Name ''d'', col_dtype = Number, col_values = [Num 7, Num 8]\<rparr>,
         \<lparr>col_name = Name ''e'', col_dtype = Number, col_values = [Num 9, Num 10]\<rparr>,
         \<lparr>col_name = Name ''f'', col_dtype = Number, col_values = [Num 11, Num 12]\<rparr>]\<rparr>"

definition ex_importances6 :: "unit \<Rightarrow> frame \<Rightarrow> int list \<Rightarrow> (rat \<times> rat) list" where
  "ex_importances6 clf X y =
     [(1 / 2, 1 / 4), (- 3 / 4, 0), (1 / 4, 1 / 8), (0, 0), (- 1, 1 / 2), (3 / 4, 0)]"

definition ex_explainer6 :: "unit \<Rightarrow> tree_explainer" where
  "ex_explainer6 clf =
     \<lparr>expected_value = [1 / 2, 1 / 2],
      shap_values =
        (\<lambda>X. [[[1, - 2, 3, 0, 1 / 2, 4], [1, 2, - 2, 0, 1 / 4, 4]],
              [[- 1, 2, - 3, 0, - 1 / 4, - 4], [- 1, - 2, 2, 0, - 1 / 4, - 4]]])\<rparr>"

definition ex_html :: "unit \<Rightarrow> cell list \<Rightarrow> cell list option \<Rightarrow> nat \<Rightarrow> bool list option \<Rightarrow> unit" where
  "ex_html clf doc names n targets = ()"

section \<open>Properties of the misclassification filter\<close>

lemma select_Cons:
  "select (b # m) (x # xs) = (if b then x # select m xs else select m xs)"
  by (simp add: select_def)

lemma select_Nil: "select [] xs = []" "select m [] = []"
  by (simp_all add: select_def)

text \<open>Masking is the selection of the positions at which the mask holds.\<close>

lemma select_nths:
  "length m = length xs \<Longrightarrow> select m xs = nths xs {i. i < length m \<and> m ! i}"
proof (induction m xs rule: list_induct2)
  case Nil
  then show ?case by (simp add: select_Nil)
next
  case (Cons b m x xs)
  have "{j. Suc j \<in> {i. i < length (b # m) \<and> (b # m) ! i}} = {i. i < length m \<and> m ! i}"
    by auto
  with Cons show ?case by (simp add: select_Cons nths_Cons)
qed

lemma ne_mask_positions:
  "length p = length y \<Longrightarrow>
   {i. i < length (map2 (\<lambda>x y. x \<noteq> y) p y) \<and> map2 (\<lambda>x y. x \<noteq> y) p y ! i}
     = {i. i < length p \<and> p ! i \<noteq> y ! i}"
  by auto

lemma select_ne_mask:
  assumes "length p = length y" "length xs = length p"
  shows "select (map2 (\<lambda>x y. x \<noteq> y) p y) xs = nths xs {i. i < length p \<and> p ! i \<noteq> y ! i}"
proof -
  have "length (map2 (\<lambda>x y. x \<noteq> y) p y) = length xs" using assms by simp
  from select_nths [OF this] show ?thesis
    using ne_mask_positions [OF assms(1)] by simp
qed

lemma select_all_True:
  "length xs \<le> k \<Longrightarrow> select (replicate k True) xs = xs"
proof (induction xs arbitrary: k)
  case Nil
  then show ?case by (simp add: select_Nil)
next
  case (Cons x xs)
  then obtain k' where "k = Suc k'" by (cases k) auto
  with Cons show ?case by (simp add: select_Cons)
qed

lemma length_select:
  "length m = length xs \<Longrightarrow> length (select m xs) = length (filter id m)"
  by (induction m xs rule: list_induct2) (simp_all add: select_Cons select_Nil)

lemma frame_rows_at_eq:
  assumes "list_all (\<lambda>c. length (col_values c) = length p) (frame_cols X)"
    and "length (frame_index X) = length p" and "length p = length y"
  shows "X\<lparr>frame_index := select (map2 (\<lambda>x y. x \<noteq> y) p y) (frame_index X),
            frame_cols := map (\<lambda>c. c\<lparr>col_values := select (map2 (\<lambda>x y. x \<noteq> y) p y) (col_values c)\<rparr>)
                                     (frame_cols X)\<rparr>
         = rows_at X {i. i < length p \<and> p ! i \<noteq> y ! i}"
proof -
  have "map (\<lambda>c. c\<lparr>col_values := select (map2 (\<lambda>x y. x \<noteq> y) p y) (col_values c)\<rparr>) (frame_cols X)
     = map (\<lambda>c. c\<lparr>col_values := nths (col_values c) {i. i < length p \<and> p ! i \<noteq> y ! i}\<rparr>) (frame_cols X)"
    using assms(1,3) by (intro map_cong refl) (simp add: list_all_iff select_ne_mask)
  then show ?thesis
    using assms(2,3) by (simp add: rows_at_def select_ne_mask)
qed

text \<open>On arrays of one length the filter does not raise; its result, by masks.\<close>

lemma filter_misclassified_select:
  assumes "length (frame_index X) = length pred" and "length y = length pred"
  shows "filter_misclassified X y pred =
     Inr (X\<lparr>frame_index := select (map2 (\<lambda>x y. x \<noteq> y) pred y) (frame_index X),
            frame_cols := map (\<lambda>c. c\<lparr>col_values := select (map2 (\<lambda>x y. x \<noteq> y) pred y) (col_values c)\<rparr>)
                              (frame_cols X)\<rparr>,
          select (map2 (\<lambda>x y. x \<noteq> y) pred y) y,
          select (map2 (\<lambda>x y. x \<noteq> y) pred y) pred)"
  using assms
  by (simp add: filter_misclassified_def ne_mask_def frame_getitem_mask_def bool_index_def)

text \<open>After masking by \<open>pred != y\<close> the retained predictions and labels differ everywhere.\<close>

lemma ne_mask_select:
  "length p = length y \<Longrightarrow>
   map2 (\<lambda>x y. x \<noteq> y) (select (map2 (\<lambda>x y. x \<noteq> y) p y) p)
                          (select (map2 (\<lambda>x y. x \<noteq> y) p y) y)
     = replicate (length (filter id (map2 (\<lambda>x y. x \<noteq> y) p y))) True"
  by (induction p y rule: list_induct2) (simp_all add: select_Cons select_Nil)

lemma ex_filter_value:
  "filter_misclassified ex_X_test ex_y_test ex_pred =
     Inr (\<lparr>frame_index = [2, 0],
            frame_cols = [\<lparr>col_name = Name ''width'', col_dtype = Number,
                            col_values = [Num 2, Num 4]\<rparr>]\<rparr>,
          [1, 0], [0, 1])"
  by (simp add: filter_misclassified_def ne_mask_def frame_getitem_mask_def bool_index_def
      select_def ex_X_test_def ex_y_test_def ex_pred_def)

lemma ex_X_test_wf: "wf_frame ex_X_test"
  by (simp add: wf_frame_def ex_X_test_def columns_def)

lemma ex_X_test_shape: "shape0 ex_X_test = length ex_y_test" "length ex_y_test = length ex_pred"
  by (simp_all add: shape0_def ex_X_test_def ex_y_test_def ex_pred_def)

text \<open>
  C3.  For an evaluation frame, true labels and predictions of one length, the
  misclassification filter does not raise and returns exactly the rows (of the frame, of
  the labels and of the predictions) at the positions \<open>i\<close> with
  \<open>pred[i] \<noteq> y_test[i]\<close>, in their original order; when no position differs it
  returns the frame with the same columns and no rows, and two empty arrays.
\<close>

theorem filter_misclassified_rows:
  assumes "wf_frame X_test" and "shape0 X_test = length y_test"
    and "length y_test = length pred"
  shows "filter_misclassified X_test y_test pred =
           Inr (rows_at X_test {i. i < length pred \<and> pred ! i \<noteq> y_test ! i},
                nths y_test {i. i < length pred \<and> pred ! i \<noteq> y_test ! i},
                nths pred {i. i < length pred \<and> pred ! i \<noteq> y_test ! i})
         \<and> ((\<forall>i<length pred. pred ! i = y_test ! i) \<longrightarrow>
              filter_misclassified X_test y_test pred = Inr (empty_like X_test, [], []))"
proof -
  let ?S = "{i. i < length pred \<and> pred ! i \<noteq> y_test ! i}"
  have cols: "list_all (\<lambda>c. length (col_values c) = length pred) (frame_cols X_test)"
    using assms by (simp add: wf_frame_def shape0_def)
  have idx: "length (frame_index X_test) = length pred"
    using assms by (simp add: shape0_def)
  have len: "length pred = length y_test" using assms(3) by simp
  have main: "filter_misclassified X_test y_test pred =
           Inr (rows_at X_test ?S, nths y_test ?S, nths pred ?S)"
    using idx len frame_rows_at_eq [OF cols idx len]
    by (simp add: filter_misclassified_def ne_mask_def frame_getitem_mask_def bool_index_def
        select_ne_mask)
  have "rows_at X_test ?S = empty_like X_test \<and> nths y_test ?S = [] \<and> nths pred ?S = []"
    if "\<forall>i<length pred. pred ! i = y_test ! i"
  proof -
    have e: "?S = {}" using that by auto
    show ?thesis unfolding e by (simp add: rows_at_def empty_like_def)
  qed
  with main show ?thesis by simp
qed

theorem filter_misclassified_rows_witness:
  "rows_at ex_X_test {i. i < length ex_pred \<and> ex_pred ! i \<noteq> ex_y_test ! i} =
     \<lparr>frame_index = [2, 0],
      frame_cols = [\<lparr>col_name = Name ''width'', col_dtype = Number,
                      col_values = [Num 2, Num 4]\<rparr>]\<rparr>
   \<and> nths ex_y_test {i. i < length ex_pred \<and> ex_pred ! i \<noteq> ex_y_test ! i} = [1, 0]
   \<and> nths ex_pred {i. i < length ex_pred \<and> ex_pred ! i \<noteq> ex_y_test ! i} = [0, 1]
   \<and> filter_misclassified ex_X_test ex_y_test ex_y_test = Inr (empty_like ex_X_test, [], [])"
proof -
  have same: "shape0 ex_X_test = length ex_y_test" "length ex_y_test = length ex_y_test"
    by (simp_all add: ex_X_test_shape)
  have "filter_misclassified ex_X_test ex_y_test ex_pred =
          Inr (rows_at ex_X_test {i. i < length ex_pred \<and> ex_pred ! i \<noteq> ex_y_test ! i},
               nths ex_y_test {i. i < length ex_pred \<and> ex_pred ! i \<noteq> ex_y_test ! i},
               nths ex_pred {i. i < length ex_pred \<and> ex_pred ! i \<noteq> ex_y_test ! i})"
    using filter_misclassified_rows [OF ex_X_test_wf ex_X_test_shape] by (rule conjunct1)
  then have rows: "rows_at ex_X_test {i. i < length ex_pred \<and> ex_pred ! i \<noteq> ex_y_test ! i} =
     \<lparr>frame_index = [2, 0],
      frame_cols = [\<lparr>col_name = Name ''width'', col_dtype = Number,
                      col_values = [Num 2, Num 4]\<rparr>]\<rparr>
   \<and> nths ex_y_test {i. i < length ex_pred \<and> ex_pred ! i \<noteq> ex_y_test ! i} = [1, 0]
   \<and> nths ex_pred {i. i < length ex_pred \<and> ex_pred ! i \<noteq> ex_y_test ! i} = [0, 1]"
    by (simp only: ex_filter_value sum.inject prod.inject)
  have "(\<forall>i<length ex_y_test. ex_y_test ! i = ex_y_test ! i) \<longrightarrow>
          filter_misclassified ex_X_test ex_y_test ex_y_test = Inr (empty_like ex_X_test, [], [])"
    using filter_misclassified_rows [OF ex_X_test_wf same] by (rule conjunct2)
  then have "filter_misclassified ex_X_test ex_y_test ex_y_test = Inr (empty_like ex_X_test, [], [])"
    by simp
  with rows show ?thesis by simp
qed

text \<open>
  C10.  The misclassification filter is idempotent: on inputs of one length it returns a
  triple, and filtering that triple again returns it unchanged.
\<close>

theorem filter_misclassified_idempotent:
  assumes "wf_frame X_test" and "shape0 X_test = length y_test"
    and "length y_test = length pred"
  shows "\<exists>X' y' pred'.
           filter_misclassified X_test y_test pred = Inr (X', y', pred')
           \<and> filter_misclassified X' y' pred' = Inr (X', y', pred')"
proof -
  define m where "m = map2 (\<lambda>x y. x \<noteq> y) pred y_test"
  define k where "k = length (filter id m)"
  define X' where "X' = X_test\<lparr>frame_index := select m (frame_index X_test),
            frame_cols := map (\<lambda>c. c\<lparr>col_values := select m (col_values c)\<rparr>)
                              (frame_cols X_test)\<rparr>"
  have idx: "length (frame_index X_test) = length pred"
    using assms by (simp add: shape0_def)
  have lm: "length m = length pred" using assms(3) by (simp add: m_def)
  have first: "filter_misclassified X_test y_test pred = Inr (X', select m y_test, select m pred)"
    unfolding X'_def m_def by (rule filter_misclassified_select [OF idx assms(3)])
  have ly: "length (select m y_test) = k" and lp: "length (select m pred) = k"
    and li: "length (frame_index X') = k"
    using lm assms(3) idx by (simp_all add: k_def X'_def length_select)
  have m': "map2 (\<lambda>x y. x \<noteq> y) (select m pred) (select m y_test) = replicate k True"
    unfolding m_def k_def using assms(3) by (simp add: ne_mask_select)
  have cols: "map (\<lambda>c. c\<lparr>col_values := select (replicate k True) (col_values c)\<rparr>) (frame_cols X')
                = frame_cols X'"
  proof -
    have "\<forall>c \<in> set (frame_cols X'). length (col_values c) \<le> k"
      using assms(1) idx lm
      by (auto simp: X'_def wf_frame_def list_all_iff k_def length_select)
    then show ?thesis
      by (intro map_idI) (simp add: select_all_True)
  qed
  have "filter_misclassified X' (select m y_test) (select m pred) =
          Inr (X', select m y_test, select m pred)"
    using li ly lp cols
    by (simp add: filter_misclassified_select m' select_all_True)
  with first show ?thesis by blast
qed

theorem filter_misclassified_idempotent_witness:
  "filter_misclassified
     \<lparr>frame_index = [2, 0],
      frame_cols = [\<lparr>col_name = Name ''width'', col_dtype = Number,
                      col_values = [Num 2, Num 4]\<rparr>]\<rparr>
     [1, 0] [0, 1 :: int]
   = Inr (\<lparr>frame_index = [2, 0],
            frame_cols = [\<lparr>col_name = Name ''width'', col_dtype = Number,
                            col_values = [Num 2, Num 4]\<rparr>]\<rparr>,
          [1, 0], [0, 1])"
  using filter_misclassified_idempotent [OF ex_X_test_wf ex_X_test_shape] ex_filter_value
  by auto

section \<open>Properties of the data encoder\<close>

subsection \<open>Distinct values and integer codes\<close>



lemma uniques_from_prefix: "\<exists>zs. uniques_from u vs = u @ zs"
  by (induction u vs rule: uniques_from.induct) auto

lemma uniques_from_step:
  "uniques_from u (v # vs) = uniques_from (if v \<in> set u then u else u @ [v]) vs"
  by simp


lemma index_of_Some: "index_of u v = Some k \<Longrightarrow> k < length u \<and> u ! k = v"
  by (induction u arbitrary: k) (auto split: if_splits)

lemma index_of_None: "index_of u v = None \<longleftrightarrow> v \<notin> set u"
  by (induction u) auto



text \<open>One step on a value that is not missing: the table grows as for \<open>unique\<close>.\<close>

lemma factorize_step_code:
  assumes "v \<noteq> NaN" and "factorize_step u v = (code, u')"
  shows "u' = (if v \<in> set u then u else u @ [v]) \<and> 0 \<le> code
         \<and> nat code < length u' \<and> u' ! nat code = v"
proof (cases "index_of u v")
  case None
  then have "v \<notin> set u" by (simp add: index_of_None)
  with None assms show ?thesis by (auto simp: factorize_step_def)
next
  case (Some k)
  from index_of_Some [OF Some] have "k < length u" "u ! k = v" by simp_all
  moreover from this have "v \<in> set u" by auto
  ultimately show ?thesis using Some assms by (auto simp: factorize_step_def)
qed

lemma factorize_from_uniques:
  "NaN \<notin> set vs \<Longrightarrow> factorize_from u vs = (codes, u') \<Longrightarrow> u' = uniques_from u vs"
proof (induction vs arbitrary: u codes u')
  case Nil
  then show ?case by simp
next
  case (Cons v vs)
  obtain code u1 where s: "factorize_step u v = (code, u1)" by (cases "factorize_step u v")
  obtain cs u2 where r: "factorize_from u1 vs = (cs, u2)" by (cases "factorize_from u1 vs")
  from Cons.prems s r have "u' = u2" by simp
  moreover have "u1 = (if v \<in> set u then u else u @ [v])"
    using factorize_step_code [OF _ s] Cons.prems(1) by auto
  moreover from Cons.IH [OF _ r] Cons.prems(1) have "u2 = uniques_from u1 vs" by simp
  ultimately show ?case by (simp only: uniques_from_step)
qed

lemma factorize_from_codes:
  assumes "NaN \<notin> set vs" and "factorize_from u vs = (codes, u')" and "i < length vs"
  shows "0 \<le> codes ! i \<and> nat (codes ! i) < length u' \<and> u' ! nat (codes ! i) = vs ! i"
  using assms
proof (induction vs arbitrary: u codes u' i)
  case Nil
  then show ?case by simp
next
  case (Cons v vs)
  from Cons.prems(1) have vn: "v \<noteq> NaN" and vsn: "NaN \<notin> set vs" by auto
  obtain code u1 where s: "factorize_step u v = (code, u1)" by (cases "factorize_step u v")
  obtain cs u2 where r: "factorize_from u1 vs = (cs, u2)" by (cases "factorize_from u1 vs")
  from Cons.prems(2) s r have codes: "codes = code # cs" and u2: "u' = u2" by simp_all
  show ?case
  proof (cases i)
    case 0
    have c: "0 \<le> code" "nat code < length u1" "u1 ! nat code = v"
      using factorize_step_code [OF vn s] by blast+
    have "u2 = uniques_from u1 vs" using factorize_from_uniques [OF vsn r] .
    then obtain zs where "u2 = u1 @ zs" using uniques_from_prefix by metis
    with c 0 codes u2 show ?thesis by (simp add: nth_append)
  next
    case (Suc j)
    with Cons.prems(3) have "j < length vs" by simp
    from Cons.IH [OF vsn r this] Suc codes u2 show ?thesis by simp
  qed
qed

text \<open>
  On a column without missing entries the two library calls agree: the uniques of
  \<open>factorize\<close> are the list \<open>unique\<close> returns, every code is a position in that
  list, and the label at the code of a row is the value of the row.
\<close>

lemma factorize_labels_aligned:
  assumes "NaN \<notin> set vs" and "i < length vs"
  shows "0 \<le> fst (factorize vs) ! i
         \<and> nat (fst (factorize vs) ! i) < length (unique vs)
         \<and> unique vs ! nat (fst (factorize vs) ! i) = vs ! i"
proof -
  obtain codes u' where f: "factorize_from [] vs = (codes, u')"
    by (cases "factorize_from [] vs")
  have "u' = unique vs"
    using factorize_from_uniques [OF assms(1) f] by (simp add: unique_def)
  with factorize_from_codes [OF assms(1) f assms(2)] f show ?thesis
    by (simp add: factorize_def)
qed

subsection \<open>The pieces of \<open>encode_data\<close>\<close>







subsection \<open>The example tables, encoded\<close>







subsection \<open>Shapes of the encoding\<close>



subsection \<open>The effect on the input table\<close>




subsection \<open>Codes and labels on a target column with a missing entry\<close>

text \<open>
  C9 at a table whose target column is \<open>a, NaN, b\<close>.  \<open>unique\<close> lists the missing
  entry among the labels, \<open>factorize\<close> does not count it and gives it the code
  \<open>-1\<close>: the codes are \<open>0, -1, 1\<close> and the labels \<open>a, NaN, b\<close>.  The code of
  the second row is no position of the label list, and the label at the code of the third
  row is \<open>NaN\<close>, not the row's value \<open>b\<close>.
\<close>

theorem encode_data_missing_target:
  "encode_data ex_missing_target (Name ''species'') =
     Inr ((\<lparr>frame_index = [0, 1, 2],
             frame_cols =
               [\<lparr>col_name = Name ''width'', col_dtype = Number,
                  col_values = [Num 1, Num 2, Num 3]\<rparr>]\<rparr>,
           [0, - 1, 1],
           [Name ''width''],
           [Str ''a'', NaN, Str ''b'']),
          ex_missing_target)
   \<and> [Str ''a'', NaN, Str ''b''] ! nat 1 \<noteq> Str ''b''"
  by code_simp

section \<open>Properties of the splitter\<close>











text \<open>Row \<open>k\<close> of \<open>rows_in_order df idx\<close> is row \<open>idx ! k\<close> of \<open>df\<close>, cell by cell.\<close>

lemma rows_in_order_row:
  assumes "k < length idx"
  shows "frame_index (rows_in_order df idx) ! k = frame_index df ! (idx ! k)"
    and "map (\<lambda>c. col_values c ! k) (frame_cols (rows_in_order df idx))
           = map (\<lambda>c. col_values c ! (idx ! k)) (frame_cols df)"
    and "columns (rows_in_order df idx) = columns df"
  using assms by (simp_all add: rows_in_order_def columns_def comp_def)

lemma ex_two_split_value:
  "splitdata ex_permutation ex_two [0, 1 :: int] =
     Inr (\<lparr>frame_index = [0],
            frame_cols = [\<lparr>col_name = Name ''width'', col_dtype = Number,
                            col_values = [Num 10]\<rparr>]\<rparr>,
          \<lparr>frame_index = [1],
            frame_cols = [\<lparr>col_name = Name ''width'', col_dtype = Number,
                            col_values = [Num 11]\<rparr>]\<rparr>,
          [0], [1])"
  by code_simp

lemma ex_one_split_value: "splitdata ex_permutation ex_one [0 :: int] = Inl ValueError"
  by code_simp




text \<open>
  The claim as worded fails twice.  On a table of one row the error is a ValueError, not
  an error of the program.  On a table of two rows the parts have one row each, which is
  not a ratio of 80 to 20: the training part has \<open>floor(0.8 n)\<close> rows, four times the
  test part only when \<open>n\<close> is a multiple of five.
\<close>

theorem splitdata_not_80_20:
  "splitdata ex_permutation ex_one [0 :: int] = Inl ValueError
   \<and> splitdata ex_permutation ex_two [0, 1 :: int] =
     Inr (\<lparr>frame_index = [0],
            frame_cols = [\<lparr>col_name = Name ''width'', col_dtype = Number,
                            col_values = [Num 10]\<rparr>]\<rparr>,
          \<lparr>frame_index = [1],
            frame_cols = [\<lparr>col_name = Name ''width'', col_dtype = Number,
                            col_values = [Num 11]\<rparr>]\<rparr>,
          [0], [1])
   \<and> length [0 :: int] \<noteq> 4 * length [1 :: int]"
  by (simp add: ex_one_split_value ex_two_split_value)

section \<open>Properties of model training\<close>

text \<open>
  C1, as the code has it.  The LightGBM classifier gets the multiclass objective exactly
  when there are more than two target labels and the binary objective otherwise; the
  class-balancing weight goes with the multiclass objective, and the binary classifier is
  built without it.  That classifier is the one fitted on the training data.
\<close>

theorem lgbm_classifier_objective:
  "(objective (lgbm_classifier target_labels) = ''multiclass'' \<longleftrightarrow> 2 < length target_labels)
   \<and> (objective (lgbm_classifier target_labels) = ''binary'' \<longleftrightarrow> length target_labels \<le> 2)
   \<and> (class_weight (lgbm_classifier target_labels) = Some ''balanced'' \<longleftrightarrow> 2 < length target_labels)
   \<and> (class_weight (lgbm_classifier target_labels) = None \<longleftrightarrow> length target_labels \<le> 2)
   \<and> apply_model fit xgb_train ''lightGBM'' X_train y_train target_labels =
       fit (LGBMClassifier (lgbm_classifier target_labels)) X_train y_train"
  by (auto simp: lgbm_classifier_def apply_model_def)

text \<open>
  The claim that class balancing is applied in the binary case and only there fails both
  ways: with two labels the classifier is binary and has no class weight, with three it
  is multiclass and balanced.
\<close>

theorem lgbm_binary_not_balanced:
  "objective (lgbm_classifier [Str ''no'', Str ''yes'']) = ''binary''
   \<and> class_weight (lgbm_classifier [Str ''no'', Str ''yes'']) = None
   \<and> objective (lgbm_classifier [Str ''a'', Str ''b'', Str ''c'']) = ''multiclass''
   \<and> class_weight (lgbm_classifier [Str ''a'', Str ''b'', Str ''c'']) = Some ''balanced''"
  by (simp add: lgbm_classifier_def)

text \<open>
  C6, as the code has it.  The training block checks nothing and has no error of its
  own: for each of the three model names its outcome is the outcome of the one library
  call it makes on the training data as given.  It fails exactly when that call fails,
  with the error of the library, and then yields no model; the number of distinct classes
  in \<open>y_train\<close> plays no part in the program.
\<close>

theorem apply_model_is_library_call:
  assumes "model_dim = ''randomforest'' \<or> model_dim = ''lightGBM'' \<or> model_dim = ''XGBoost''"
  shows "apply_model fit xgb_train model_dim X_train y_train target_labels =
           (if model_dim = ''XGBoost''
            then xgb_train \<lparr>max_depth = 5, silent = 1, random_state = 2,
                            num_class = length target_labels\<rparr> (X_train, y_train)
            else fit (if model_dim = ''randomforest'' then RandomForestClassifier 500 0
                      else LGBMClassifier (lgbm_classifier target_labels))
                     X_train y_train)"
  using assms by (auto simp: apply_model_def)

theorem apply_model_is_library_call_witness:
  "apply_model ex_fit ex_xgb_train ''lightGBM'' ex_X_test [0, 0, 0, 0] [Str ''no'']
     = Inr (LGBMClassifier \<lparr>class_weight = None, objective = ''binary'', n_jobs = - 1,
                             verbose = - 1\<rparr>, [0, 0, 0, 0])
   \<and> apply_model ex_fit ex_xgb_train ''XGBoost'' ex_X_test [0, 1, 1, 0] ex_labels
     = Inl ValueError"
proof -
  have l: "''lightGBM'' = ''randomforest'' \<or> ''lightGBM'' = ''lightGBM'' \<or> ''lightGBM'' = ''XGBoost''"
    by simp
  have x: "''XGBoost'' = ''randomforest'' \<or> ''XGBoost'' = ''lightGBM'' \<or> ''XGBoost'' = ''XGBoost''"
    by simp
  from apply_model_is_library_call [where fit = ex_fit and xgb_train = ex_xgb_train
      and X_train = ex_X_test and y_train = "[0, 0, 0, 0]" and target_labels = "[Str ''no'']",
      OF l]
    apply_model_is_library_call [where fit = ex_fit and xgb_train = ex_xgb_train
      and X_train = ex_X_test and y_train = "[0, 1, 1, 0]" and target_labels = ex_labels,
      OF x]
  show ?thesis by (simp add: lgbm_classifier_def ex_fit_def ex_xgb_train_def)
qed

text \<open>
  The claim that training fails whenever \<open>y_train\<close> has fewer than two distinct
  classes fails: with a library \<open>fit\<close> that accepts a single-class target (as the
  random forest of scikit-learn does) training on the labels \<open>0, 0, 0, 0\<close> returns a
  model.
\<close>

theorem apply_model_single_class:
  "card (set [0, 0, 0, 0 :: int]) < 2
   \<and> apply_model ex_fit ex_xgb_train ''randomforest'' ex_X_test [0, 0, 0, 0] [Str ''no'']
       = Inr (RandomForestClassifier 500 0, [0, 0, 0, 0])"
  by (simp add: apply_model_def ex_fit_def)

section \<open>Properties of the local explanation\<close>

lemma py_getitem_nat: "k < length xs \<Longrightarrow> py_getitem xs (int k) = Inr (xs ! k)"
  by (simp add: py_getitem_def)

lemma iloc_row_nat:
  assumes "wf_frame df" and "k < shape0 df"
  shows "iloc_row df (int k) = Inr (map (\<lambda>c. col_values c ! k) (frame_cols df))"
  using assms by (simp add: iloc_row_def row_cells_def wf_frame_def shape0_def list_all_iff)

text \<open>
  The force plot of row \<open>k\<close>: base value and contribution row are those of the class
  \<open>int(pred[k])\<close>.
\<close>

lemma show_local_interpretation_shap_row:
  assumes "wf_frame X_test" and "shape0 X_test = length pred" and "k < length pred"
    and "py_int (pred ! k) = int c"
    and "c < length (expected_value (TreeExplainer clf))"
    and "c < length (shap_values (TreeExplainer clf) X_test)"
    and "k < length (shap_values (TreeExplainer clf) X_test ! c)"
  shows "show_local_interpretation_shap TreeExplainer clf X_test pred (int k) =
           Inr \<lparr>base_value = expected_value (TreeExplainer clf) ! c,
                contributions = shap_values (TreeExplainer clf) X_test ! c ! k,
                features = map (\<lambda>col. col_values col ! k) (frame_cols X_test)\<rparr>"
proof -
  have "k < shape0 X_test" using assms(2,3) by simp
  from iloc_row_nat [OF assms(1) this] assms(3-7) show ?thesis
    by (simp add: show_local_interpretation_shap_def Let_def py_getitem_nat)
qed

lemma ex_local_value:
  "show_local_interpretation (\<lambda>lo hi. 1) ex_explainer (\<lambda>clf doc names n targets. ())
     ex_X_test ex_y_test () ex_pred_scores ex_labels [Name ''width''] ''lightGBM'' ''SHAP'' =
   Inr \<lparr>shown_prediction = Str ''no'', shown_actual = Str ''yes'',
        shown_explanation =
          ForcePlot \<lparr>base_value = 1 / 2, contributions = [2], features = [Num 2]\<rparr>\<rparr>"
  by code_simp

text \<open>
  C2.  Let the evaluation frame, the true labels and the predictions have one length, let
  the slider select row \<open>k\<close>, let \<open>c = int(pred[k])\<close> be the predicted class and
  \<open>t = y_test[k]\<close> the true class of that row, both among the target labels, and let the
  explainer cover class \<open>c\<close> and row \<open>k\<close>.  Then the SHAP explanation shown is the
  force plot with the expected value of class \<open>c\<close>, row \<open>k\<close> of the contribution
  array of class \<open>c\<close>, and the feature values of row \<open>k\<close>.  The true class \<open>t\<close>
  appears in the text line only.
\<close>

theorem show_local_interpretation_shap_predicted_class:
  assumes "wf_frame X_test" and "shape0 X_test = length pred"
    and "length y_test = length pred"
    and "slider 0 (int (shape0 X_test) - 1) = int k" and "k < length pred"
    and "py_int (pred ! k) = int c" and "c < length target_labels"
    and "y_test ! k = int t" and "t < length target_labels"
    and "c < length (expected_value (TreeExplainer clf))"
    and "c < length (shap_values (TreeExplainer clf) X_test)"
    and "k < length (shap_values (TreeExplainer clf) X_test ! c)"
  shows "show_local_interpretation slider TreeExplainer show_prediction
           X_test y_test clf pred target_labels feats model_dim ''SHAP'' =
         Inr \<lparr>shown_prediction = target_labels ! c,
              shown_actual = target_labels ! t,
              shown_explanation = ForcePlot
                \<lparr>base_value = expected_value (TreeExplainer clf) ! c,
                 contributions = shap_values (TreeExplainer clf) X_test ! c ! k,
                 features = map (\<lambda>col. col_values col ! k) (frame_cols X_test)\<rparr>\<rparr>"
proof -
  have ky: "k < length y_test" using assms(3,5) by simp
  have "py_getitem y_test (int k) = Inr (int t)"
    using py_getitem_nat [OF ky] assms(8) by simp
  moreover have "py_getitem pred (int k) = Inr (pred ! k)"
    using py_getitem_nat [OF assms(5)] .
  moreover have "py_getitem target_labels (int c) = Inr (target_labels ! c)"
    and "py_getitem target_labels (int t) = Inr (target_labels ! t)"
    using assms(7,9) by (simp_all add: py_getitem_nat)
  moreover note show_local_interpretation_shap_row
    [where TreeExplainer = TreeExplainer and clf = clf, OF assms(1,2,5,6,10,11,12)]
  ultimately show ?thesis
    using assms(4,6) by (simp add: show_local_interpretation_def Let_def)
qed

theorem show_local_interpretation_shap_predicted_class_witness:
  "ex_y_test ! 1 \<noteq> py_int (ex_pred_scores ! 1)
   \<and> show_local_interpretation (\<lambda>lo hi. 1) ex_explainer (\<lambda>clf doc names n targets. ())
       ex_X_test ex_y_test () ex_pred_scores ex_labels [Name ''width''] ''lightGBM'' ''SHAP'' =
     Inr \<lparr>shown_prediction = Str ''no'', shown_actual = Str ''yes'',
          shown_explanation =
            ForcePlot \<lparr>base_value = expected_value (ex_explainer ()) ! 0,
                       contributions = shap_values (ex_explainer ()) ex_X_test ! 0 ! 1,
                       features = [Num 2]\<rparr>\<rparr>"
proof -
  have h2: "shape0 ex_X_test = length ex_pred_scores"
    and h3: "length ex_y_test = length ex_pred_scores"
    and h4: "(\<lambda>lo hi. 1) 0 (int (shape0 ex_X_test) - 1) = int 1"
    and h5: "1 < length ex_pred_scores"
    and h6: "py_int (ex_pred_scores ! 1) = int 0"
    and h7: "0 < length ex_labels"
    and h8: "ex_y_test ! 1 = int 1"
    and h9: "1 < length ex_labels"
    and h10: "0 < length (expected_value (ex_explainer ()))"
    and h11: "0 < length (shap_values (ex_explainer ()) ex_X_test)"
    and h12: "1 < length (shap_values (ex_explainer ()) ex_X_test ! 0)"
    by (simp_all add: shape0_def ex_X_test_def ex_pred_scores_def ex_y_test_def py_int_def
        ex_labels_def ex_explainer_def)
  from show_local_interpretation_shap_predicted_class
    [where slider = "\<lambda>lo hi. 1" and TreeExplainer = ex_explainer and clf = "()"
       and show_prediction = "\<lambda>clf doc names n targets. ()" and feats = "[Name ''width'']"
       and model_dim = "''lightGBM''",
     OF ex_X_test_wf h2 h3 h4 h5 h6 h7 h8 h9 h10 h11 h12]
  have "show_local_interpretation (\<lambda>lo hi. 1) ex_explainer (\<lambda>clf doc names n targets. ())
       ex_X_test ex_y_test () ex_pred_scores ex_labels [Name ''width''] ''lightGBM'' ''SHAP'' =
     Inr \<lparr>shown_prediction = Str ''no'', shown_actual = Str ''yes'',
          shown_explanation =
            ForcePlot \<lparr>base_value = expected_value (ex_explainer ()) ! 0,
                       contributions = shap_values (ex_explainer ()) ex_X_test ! 0 ! 1,
                       features = [Num 2]\<rparr>\<rparr>"
    by (simp add: ex_labels_def ex_X_test_def)
  moreover have "ex_y_test ! 1 \<noteq> py_int (ex_pred_scores ! 1)"
    unfolding h6 h8 by simp
  ultimately show ?thesis by blast
qed

section \<open>Properties of the global explanation\<close>

text \<open>The ascending order of the scores, reversed, is their descending order.\<close>

lemma rev_sort_key_descending:
  "sorted_wrt (\<lambda>a b. f b \<le> f a) (rev (sort_key (f :: 'a \<Rightarrow> rat) xs))"
proof -
  have "sorted (map f (sort_key f xs))" by (rule sorted_sort_key)
  then have "sorted_wrt (\<lambda>a b. f a \<le> f b) (sort_key f xs)" by (simp add: sorted_map)
  then show ?thesis by (simp add: sorted_wrt_rev)
qed

text \<open>
  Cutting the descending order after \<open>k\<close> entries splits the list into the \<open>k\<close>
  entries kept and the entries dropped, and no dropped entry has a larger score than a
  kept one.
\<close>

lemma top_k_split:
  fixes f :: "'a \<Rightarrow> rat" and xs :: "'a list"
  defines "L \<equiv> rev (sort_key f xs)"
  shows "mset xs = mset (take k L) + mset (drop k L)"
    and "\<forall>a \<in> set (take k L). \<forall>d \<in> set (drop k L). f d \<le> f a"
    and "sorted_wrt (\<lambda>a b. f b \<le> f a) (take k L)"
    and "length (take k L) = min k (length xs)"
proof -
  have "mset L = mset xs" by (simp add: L_def)
  moreover have "mset L = mset (take k L @ drop k L)" by simp
  ultimately show "mset xs = mset (take k L) + mset (drop k L)"
    by (simp only: mset_append)
  have s: "sorted_wrt (\<lambda>a b. f b \<le> f a) (take k L @ drop k L)"
    using rev_sort_key_descending [of f xs] by (simp add: L_def)
  then show "\<forall>a \<in> set (take k L). \<forall>d \<in> set (drop k L). f d \<le> f a"
    unfolding sorted_wrt_append by blast
  from s show "sorted_wrt (\<lambda>a b. f b \<le> f a) (take k L)"
    unfolding sorted_wrt_append by blast
  show "length (take k L) = min k (length xs)" by (simp add: L_def min.commute)
qed

lemma sort_key_neg_descending:
  "sorted_wrt (\<lambda>a b. b \<le> a) (map (f :: 'a \<Rightarrow> rat) (sort_key (\<lambda>x. - f x) xs))"
proof -
  have "sorted (map (\<lambda>x. - f x) (sort_key (\<lambda>x. - f x) xs))" by (rule sorted_sort_key)
  then show ?thesis by (simp add: sorted_map sorted_wrt_map)
qed

lemma mean_abs_nonneg: "0 \<le> mean_abs cv j"
  unfolding mean_abs_def by (intro divide_nonneg_nonneg sum_list_nonneg) auto

lemma bar_nonneg: "0 \<le> sum_list (map (\<lambda>cv. mean_abs cv j) values)"
  by (rule sum_list_nonneg) (auto simp: mean_abs_nonneg)

text \<open>
  The permutation ranking: the (at most five) rows with the largest importances, each
  with importance and standard deviation rounded, in descending order of the rounded
  importance.
\<close>

lemma eli5_ranking:
  fixes PermutationImportance :: "'clf \<Rightarrow> frame \<Rightarrow> int list \<Rightarrow> (rat \<times> rat) list"
  shows "\<exists>kept dropped.
           mset (map (\<lambda>(f, w, s). \<lparr>feature = f, weight = w, std = s\<rparr>)
                     (zip (columns X_train) (PermutationImportance clf X_train y_train)))
             = mset kept + mset dropped
           \<and> length kept =
               min 5 (length (zip (columns X_train) (PermutationImportance clf X_train y_train)))
           \<and> (\<forall>k \<in> set kept. \<forall>d \<in> set dropped. weight d \<le> weight k)
           \<and> mset (show_global_interpretation_eli5 PermutationImportance X_train y_train feats
                      clf model_dim) =
               mset (map (\<lambda>r. \<lparr>feature = feature r, weight = round2 (weight r),
                                std = round2 (std r)\<rparr>) kept)"
    and "sorted_wrt (\<lambda>a b. b \<le> a)
           (map weight (show_global_interpretation_eli5 PermutationImportance X_train y_train
                          feats clf model_dim))"
proof -
  define rows where "rows = map (\<lambda>(f, w, s). \<lparr>feature = f, weight = w, std = s\<rparr>)
                      (zip (columns X_train) (PermutationImportance clf X_train y_train))"
  define chart where "chart = show_global_interpretation_eli5 PermutationImportance X_train
                                y_train feats clf model_dim"
  define L where "L = rev (sort_key weight rows)"
  note t = top_k_split [where f = weight and xs = rows and k = 5, folded L_def]
  have c: "chart = sort_key (\<lambda>r. - weight r) (round_df (take 5 L))"
    by (simp add: chart_def show_global_interpretation_eli5_def Let_def explain_weights_df_def
        rows_def L_def)
  have rd: "round_df (take 5 L) =
              map (\<lambda>r. \<lparr>feature = feature r, weight = round2 (weight r),
                            std = round2 (std r)\<rparr>) (take 5 L)"
    by (simp add: round_df_def)
  have m: "mset chart = mset (map (\<lambda>r. \<lparr>feature = feature r, weight = round2 (weight r),
                            std = round2 (std r)\<rparr>) (take 5 L))"
    unfolding c rd by simp
  have l: "length (take 5 L) =
             min 5 (length (zip (columns X_train) (PermutationImportance clf X_train y_train)))"
    using t(4) by (simp add: rows_def)
  from t(1,2) l m show "\<exists>kept dropped.
           mset (map (\<lambda>(f, w, s). \<lparr>feature = f, weight = w, std = s\<rparr>)
                     (zip (columns X_train) (PermutationImportance clf X_train y_train)))
             = mset kept + mset dropped
           \<and> length kept =
               min 5 (length (zip (columns X_train) (PermutationImportance clf X_train y_train)))
           \<and> (\<forall>k \<in> set kept. \<forall>d \<in> set dropped. weight d \<le> weight k)
           \<and> mset (show_global_interpretation_eli5 PermutationImportance X_train y_train feats
                      clf model_dim) =
               mset (map (\<lambda>r. \<lparr>feature = feature r, weight = round2 (weight r),
                                std = round2 (std r)\<rparr>) kept)"
    unfolding rows_def [symmetric] chart_def [symmetric] by blast
  show "sorted_wrt (\<lambda>a b. b \<le> a)
           (map weight (show_global_interpretation_eli5 PermutationImportance X_train y_train
                          feats clf model_dim))"
    unfolding chart_def [symmetric] c by (rule sort_key_neg_descending)
qed

text \<open>
  The summary plot: the (at most \<open>max_display\<close>) features with the longest bars,
  each with its bar as computed, longest first.
\<close>

lemma summary_plot_bar_ranking:
  assumes "summary_plot_bar values X max_display = Inr chart"
  shows "\<exists>dropped.
           mset (map (\<lambda>j. (columns X ! j, sum_list (map (\<lambda>cv. mean_abs cv j) values)))
                     [0..<length (columns X)])
             = mset chart + mset dropped
           \<and> (\<forall>c \<in> set chart. \<forall>d \<in> set dropped. snd d \<le> snd c)"
    and "length chart = min max_display (length (columns X))"
    and "sorted_wrt (\<lambda>a b. \<bar>b\<bar> \<le> \<bar>a\<bar>) (map snd chart)"
    and "\<forall>v \<in> set (map snd chart). 0 \<le> v"
proof -
  define bars where "bars = map (\<lambda>j. (columns X ! j, sum_list (map (\<lambda>cv. mean_abs cv j) values)))
                      [0..<length (columns X)]"
  define L where "L = rev (sort_key snd bars)"
  note t = top_k_split [where f = snd and xs = bars and k = max_display, folded L_def]
  from assms(1) have chart: "chart = take max_display L"
    by (auto simp: summary_plot_bar_def bars_def L_def split: if_splits)
  from t(1,2) show "\<exists>dropped.
           mset (map (\<lambda>j. (columns X ! j, sum_list (map (\<lambda>cv. mean_abs cv j) values)))
                     [0..<length (columns X)])
             = mset chart + mset dropped
           \<and> (\<forall>c \<in> set chart. \<forall>d \<in> set dropped. snd d \<le> snd c)"
    unfolding chart bars_def [symmetric] by blast
  show "length chart = min max_display (length (columns X))"
    using t(4) by (simp add: chart bars_def)
  have nn: "\<forall>b \<in> set bars. 0 \<le> snd b" by (auto simp: bars_def bar_nonneg)
  have "set chart \<subseteq> set bars"
    using set_take_subset [of max_display L] by (simp add: chart L_def)
  with nn show nonneg: "\<forall>v \<in> set (map snd chart). 0 \<le> v" by auto
  have "sorted_wrt (\<lambda>a b. snd b \<le> snd a) chart" using t(3) by (simp add: chart)
  then have d: "sorted_wrt (\<lambda>a b. b \<le> a) (map snd chart)" by (simp add: sorted_wrt_map)
  show "sorted_wrt (\<lambda>a b. \<bar>b\<bar> \<le> \<bar>a\<bar>) (map snd chart)"
  proof (rule sorted_wrt_mono_rel [OF _ d])
    fix a b :: rat
    assume "a \<in> set (map snd chart)" "b \<in> set (map snd chart)" "b \<le> a"
    with nonneg show "\<bar>b\<bar> \<le> \<bar>a\<bar>" by auto
  qed
qed

lemma round2_values:
  "round2 0 = 0"
  "round2 (1 / 4) = 1 / 4"
  "round2 (1 / 2) = 1 / 2"
  "round2 (3 / 4) = 3 / 4"
  "round2 (- (3 / 4)) = - (3 / 4)"
  "round2 (1 / 8) = 1080863910568919 / 9007199254740992"
  by code_simp+

lemma ex_top5_value:
  "explain_weights_df (ex_importances6 () ex_six [0, 1]) (columns ex_six) 5 =
    [\<lparr>feature = Name ''f'', weight = 3 / 4, std = 0\<rparr>,
     \<lparr>feature = Name ''a'', weight = 1 / 2, std = 1 / 4\<rparr>,
     \<lparr>feature = Name ''c'', weight = 1 / 4, std = 1 / 8\<rparr>,
     \<lparr>feature = Name ''d'', weight = 0, std = 0\<rparr>,
     \<lparr>feature = Name ''b'', weight = - (3 / 4), std = 0\<rparr>]"
  by code_simp

lemma ex_eli5_value:
  "show_global_interpretation_eli5 ex_importances6 ex_six [0, 1] [] () ''randomforest'' =
    [\<lparr>feature = Name ''f'', weight = 3 / 4, std = 0\<rparr>,
     \<lparr>feature = Name ''a'', weight = 1 / 2, std = 1 / 4\<rparr>,
     \<lparr>feature = Name ''c'', weight = 1 / 4, std = 1080863910568919 / 9007199254740992\<rparr>,
     \<lparr>feature = Name ''d'', weight = 0, std = 0\<rparr>,
     \<lparr>feature = Name ''b'', weight = - (3 / 4), std = 0\<rparr>]"
  unfolding show_global_interpretation_eli5_def Let_def ex_top5_value
  by (simp add: round_df_def round2_values)

lemma ex_shap_value:
  "show_global_interpretation_shap ex_explainer6 ex_six () =
     Inr [(Name ''f'', 8), (Name ''c'', 5), (Name ''b'', 4), (Name ''a'', 2),
          (Name ''e'', 5 / 8)]"
  by code_simp

lemma round2_five_eighths: "round2 (5 / 8) = 5584463537939415 / 9007199254740992"
  by code_simp

text \<open>
  Rounding follows the floating-point product: the double nearest to \<open>0.165\<close> is
  above \<open>0.165\<close>, its product with \<open>100\<close> is the double \<open>16.5\<close>, and the
  result is the double nearest to \<open>0.16\<close>.
\<close>

lemma round2_near_tie:
  "round2 (5944751508129055 / 36028797018963968) = 5764607523034235 / 36028797018963968"
  by code_simp

text \<open>
  C5, as the code has it.  Permutation ranking: of the rows (feature, importance,
  standard deviation) the library computes, the five with the largest importance are
  kept (all of them when there are fewer), no dropped row having a larger importance than
  a kept one; the ranking consists of the kept rows with importance and standard
  deviation rounded to two decimals, in descending order of the rounded importance,
  signed.  Additive-contribution ranking, when the plot is drawn from arrays that have
  rows: of the bars (feature, sum over the classes of the mean absolute contribution)
  the five longest are kept (all of them when there are fewer), each as computed and not
  rounded, in descending order of their absolute value; no bar is negative.
\<close>

theorem global_rankings:
  fixes PermutationImportance :: "'clf \<Rightarrow> frame \<Rightarrow> int list \<Rightarrow> (rat \<times> rat) list"
  shows
  "(\<exists>kept dropped.
      mset (map (\<lambda>(f, w, s). \<lparr>feature = f, weight = w, std = s\<rparr>)
                (zip (columns X_train) (PermutationImportance clf X_train y_train)))
        = mset kept + mset dropped
      \<and> length kept =
          min 5 (length (zip (columns X_train) (PermutationImportance clf X_train y_train)))
      \<and> (\<forall>k \<in> set kept. \<forall>d \<in> set dropped. weight d \<le> weight k)
      \<and> mset (show_global_interpretation_eli5 PermutationImportance X_train y_train feats
                 clf model_dim) =
          mset (map (\<lambda>r. \<lparr>feature = feature r, weight = round2 (weight r),
                           std = round2 (std r)\<rparr>) kept))
   \<and> sorted_wrt (\<lambda>a b. b \<le> a)
       (map weight (show_global_interpretation_eli5 PermutationImportance X_train y_train
                      feats clf model_dim))
   \<and> ([] \<notin> set (shap_values (TreeExplainer clf') X_train) \<longrightarrow>
       show_global_interpretation_shap TreeExplainer X_train clf' = Inr chart \<longrightarrow>
         (\<exists>dropped.
            mset (map (\<lambda>j. (columns X_train ! j,
                             \<Sum>cv\<leftarrow>shap_values (TreeExplainer clf') X_train.
                                (\<Sum>row\<leftarrow>cv. \<bar>row ! j\<bar>) / of_nat (length cv)))
                      [0..<length (columns X_train)])
              = mset chart + mset dropped
            \<and> (\<forall>c \<in> set chart. \<forall>d \<in> set dropped. snd d \<le> snd c))
         \<and> length chart = min 5 (length (columns X_train))
         \<and> sorted_wrt (\<lambda>a b. \<bar>b\<bar> \<le> \<bar>a\<bar>) (map snd chart)
         \<and> (\<forall>v \<in> set (map snd chart). 0 \<le> v))"
proof (intro conjI impI)
  show "\<exists>kept dropped.
      mset (map (\<lambda>(f, w, s). \<lparr>feature = f, weight = w, std = s\<rparr>)
                (zip (columns X_train) (PermutationImportance clf X_train y_train)))
        = mset kept + mset dropped
      \<and> length kept =
          min 5 (length (zip (columns X_train) (PermutationImportance clf X_train y_train)))
      \<and> (\<forall>k \<in> set kept. \<forall>d \<in> set dropped. weight d \<le> weight k)
      \<and> mset (show_global_interpretation_eli5 PermutationImportance X_train y_train feats
                 clf model_dim) =
          mset (map (\<lambda>r. \<lparr>feature = feature r, weight = round2 (weight r),
                           std = round2 (std r)\<rparr>) kept)"
    by (rule eli5_ranking(1))
  show "sorted_wrt (\<lambda>a b. b \<le> a)
       (map weight (show_global_interpretation_eli5 PermutationImportance X_train y_train
                      feats clf model_dim))"
    by (rule eli5_ranking(2))
next
  assume "show_global_interpretation_shap TreeExplainer X_train clf' = Inr chart"
  then have s: "summary_plot_bar (shap_values (TreeExplainer clf') X_train) X_train 5 = Inr chart"
    by (simp add: show_global_interpretation_shap_def Let_def)
  note p = summary_plot_bar_ranking [OF s]
  show "\<exists>dropped.
            mset (map (\<lambda>j. (columns X_train ! j,
                             \<Sum>cv\<leftarrow>shap_values (TreeExplainer clf') X_train.
                                (\<Sum>row\<leftarrow>cv. \<bar>row ! j\<bar>) / of_nat (length cv)))
                      [0..<length (columns X_train)])
              = mset chart + mset dropped
            \<and> (\<forall>c \<in> set chart. \<forall>d \<in> set dropped. snd d \<le> snd c)"
    using p(1) by (simp add: mean_abs_def)
  show "length chart = min 5 (length (columns X_train))" by (rule p(2))
  show "sorted_wrt (\<lambda>a b. \<bar>b\<bar> \<le> \<bar>a\<bar>) (map snd chart)" by (rule p(3))
  show "\<forall>v \<in> set (map snd chart). 0 \<le> v" by (rule p(4))
qed

theorem global_rankings_witness:
  "sorted_wrt (\<lambda>a b. b \<le> a) [3 / 4, 1 / 2, 1 / 4, 0, - (3 / 4) :: rat]
   \<and> length [(Name ''f'', 8 :: rat), (Name ''c'', 5), (Name ''b'', 4), (Name ''a'', 2),
             (Name ''e'', 5 / 8)] = min 5 (length (columns ex_six))
   \<and> sorted_wrt (\<lambda>a b. \<bar>b\<bar> \<le> \<bar>a\<bar>) [8, 5, 4, 2, 5 / 8 :: rat]"
proof -
  have ne: "[] \<notin> set (shap_values (ex_explainer6 ()) ex_six)"
    by (simp add: ex_explainer6_def)
  note g = global_rankings [where PermutationImportance = ex_importances6 and X_train = ex_six
      and y_train = "[0, 1]" and feats = "[]" and clf = "()" and model_dim = "''randomforest''"
      and TreeExplainer = ex_explainer6 and clf' = "()"
      and chart = "[(Name ''f'', 8), (Name ''c'', 5), (Name ''b'', 4), (Name ''a'', 2),
                    (Name ''e'', 5 / 8)]"]
  have "sorted_wrt (\<lambda>a b. b \<le> a)
       (map weight (show_global_interpretation_eli5 ex_importances6 ex_six [0, 1] [] ()
                      ''randomforest''))"
    using g [THEN conjunct2, THEN conjunct1] .
  then have one: "sorted_wrt (\<lambda>a b. b \<le> a) [3 / 4, 1 / 2, 1 / 4, 0, - (3 / 4) :: rat]"
    unfolding ex_eli5_value by simp
  note h = g [THEN conjunct2, THEN conjunct2, THEN mp, THEN mp, OF ne ex_shap_value]
  have two: "length [(Name ''f'', 8 :: rat), (Name ''c'', 5), (Name ''b'', 4), (Name ''a'', 2),
             (Name ''e'', 5 / 8)] = min 5 (length (columns ex_six))"
    using h [THEN conjunct2, THEN conjunct1] .
  have "sorted_wrt (\<lambda>a b. \<bar>b\<bar> \<le> \<bar>a\<bar>)
          (map snd [(Name ''f'', 8 :: rat), (Name ''c'', 5), (Name ''b'', 4), (Name ''a'', 2),
             (Name ''e'', 5 / 8)])"
    using h [THEN conjunct2, THEN conjunct2, THEN conjunct1] .
  then have three: "sorted_wrt (\<lambda>a b. \<bar>b\<bar> \<le> \<bar>a\<bar>) [8, 5, 4, 2, 5 / 8 :: rat]"
    by simp
  from one two three show ?thesis by blast
qed

text \<open>
  The claim fails in two places, on a model with six features.  The permutation ranking
  with importances \<open>0.5, -0.75, 0.25, 0, -1, 0.75\<close> shows \<open>0.75, 0.5, 0.25, 0,
  -0.75\<close>: this is the descending order of the signed scores, not of their absolute
  values (and the feature with the largest absolute importance, \<open>-1\<close>, is not
  shown).  The additive-contribution ranking shows the bar \<open>5/8\<close> as it is, which
  is no number of two decimals.
\<close>

theorem global_rankings_not_absolute_not_rounded:
  "map weight (show_global_interpretation_eli5 ex_importances6 ex_six [0, 1] [] ()
                 ''randomforest'') = [3 / 4, 1 / 2, 1 / 4, 0, - (3 / 4)]
   \<and> \<not> sorted_wrt (\<lambda>a b. \<bar>b\<bar> \<le> \<bar>a\<bar>) [3 / 4, 1 / 2, 1 / 4, 0, - (3 / 4) :: rat]
   \<and> show_global_interpretation_shap ex_explainer6 ex_six ()
       = Inr [(Name ''f'', 8), (Name ''c'', 5), (Name ''b'', 4), (Name ''a'', 2),
              (Name ''e'', 5 / 8)]
   \<and> round2 (5 / 8) \<noteq> 5 / 8"
  by (simp add: ex_eli5_value ex_shap_value round2_five_eighths)

end
